theory Spec2Isabelle
  imports Main "HOL-Library.Word"
begin

section \<open>Stopwatch (src/Stopwatch.cc)\<close>

text \<open>
  The private data of \<^verbatim>\<open>Stopwatch::Implementation\<close>. Time points and durations of the
  steady clock are tick counts; they are modelled as integers (the operations below add and
  subtract them, and the properties proved here are about the branches that do no
  arithmetic). \<^verbatim>\<open>clock::time_point::min()\<close> is the least value of the signed 64-bit
  tick count.
\<close>

type_synonym time_point = int
type_synonym duration = int

definition time_point_min :: time_point where
  "time_point_min = - (2 ^ 63)"

definition duration_zero :: duration where
  "duration_zero = 0"

record stopwatch =
  swRunning :: bool
  swStartTime :: time_point
  swStopTime :: time_point
  swStopDuration :: duration
  swRunDuration :: duration

text \<open>The default member initialisers of the implementation class.\<close>

definition Stopwatch_new :: stopwatch where
  "Stopwatch_new =
     \<lparr>swRunning = False, swStartTime = time_point_min, swStopTime = time_point_min,
      swStopDuration = duration_zero, swRunDuration = duration_zero\<rparr>"

definition Stopwatch_Reset :: "stopwatch \<Rightarrow> stopwatch" where
  "Stopwatch_Reset w =
     w\<lparr>swRunning := False, swStartTime := time_point_min, swStopTime := time_point_min,
       swStopDuration := duration_zero, swRunDuration := duration_zero\<rparr>"

text \<open>
  \<^verbatim>\<open>Stopwatch::Start(_reset)\<close>. The body reads \<^verbatim>\<open>clock::now()\<close> up to twice; the
  two readings are the parameters \<open>now1\<close> (used for the stop duration) and \<open>now2\<close>
  (stored as the start time). The result is the returned flag and the stopwatch after
  the call.
\<close>

definition Stopwatch_Start :: "bool \<Rightarrow> time_point \<Rightarrow> time_point \<Rightarrow> stopwatch \<Rightarrow> bool \<times> stopwatch" where
  "Stopwatch_Start reset now1 now2 w =
     (let w1 = (if reset then Stopwatch_Reset w else w) in
      if \<not> swRunning w1 then
        (let w2 = (if swStartTime w1 \<noteq> swStopTime w1
                   then w1\<lparr>swStopDuration := swStopDuration w1 + (now1 - swStopTime w1)\<rparr>
                   else w1)
         in (True, w2\<lparr>swRunning := True, swStartTime := now2\<rparr>))
      else (False, w1))"

definition Stopwatch_StartTime :: "stopwatch \<Rightarrow> time_point" where
  "Stopwatch_StartTime w = swStartTime w"

text \<open>\<^verbatim>\<open>Stopwatch::Stop()\<close>; \<open>now\<close> is the reading of \<^verbatim>\<open>clock::now()\<close>.\<close>

definition Stopwatch_Stop :: "time_point \<Rightarrow> stopwatch \<Rightarrow> bool \<times> stopwatch" where
  "Stopwatch_Stop now w =
     (if swRunning w then
        (let w1 = w\<lparr>swRunning := False, swStopTime := now\<rparr>
         in (True, w1\<lparr>swRunDuration := swRunDuration w1 + (swStopTime w1 - swStartTime w1)\<rparr>))
      else (False, w))"

definition Stopwatch_StopTime :: "stopwatch \<Rightarrow> time_point" where
  "Stopwatch_StopTime w = swStopTime w"

definition Stopwatch_Running :: "stopwatch \<Rightarrow> bool" where
  "Stopwatch_Running w = swRunning w"

definition Stopwatch_ElapsedRunTime :: "time_point \<Rightarrow> stopwatch \<Rightarrow> duration" where
  "Stopwatch_ElapsedRunTime now w =
     (if swRunning w then now - swStartTime w + swRunDuration w else swRunDuration w)"

definition Stopwatch_ElapsedStopTime :: "time_point \<Rightarrow> stopwatch \<Rightarrow> duration" where
  "Stopwatch_ElapsedStopTime now w =
     (if swRunning w then swStopDuration w
      else if swStopTime w > time_point_min then swStopDuration w + (now - swStopTime w)
      else duration_zero)"

text \<open>\<^verbatim>\<open>operator==\<close> compares the five fields.\<close>

definition Stopwatch_eq :: "stopwatch \<Rightarrow> stopwatch \<Rightarrow> bool" where
  "Stopwatch_eq a b \<longleftrightarrow>
     swRunning a = swRunning b \<and> swStartTime a = swStartTime b \<and>
     swStopTime a = swStopTime b \<and> swStopDuration a = swStopDuration b \<and>
     swRunDuration a = swRunDuration b"

section \<open>World descriptions and the external collaborators of the server\<close>

text \<open>
  An SDF error list is a list of messages; an \<^verbatim>\<open>sdf::Root\<close> is the list of the
  worlds it holds (\<^verbatim>\<open>WorldCount\<close> is its length, \<^verbatim>\<open>WorldByIndex\<close> reads it).
  A world has a name and the names of the entities declared in it.
\<close>

type_synonym sdf_errors = "string list"

record world =
  wName :: string
  wEntities :: "string list"

record sdf_root =
  rootWorlds :: "world list"

definition sdf_root_empty :: sdf_root where
  "sdf_root_empty = \<lparr>rootWorlds = []\<rparr>"

type_synonym Entity = "64 word"

text \<open>
  A system handed to \<^verbatim>\<open>AddSystem\<close>: a \<^verbatim>\<open>SystemPluginPtr\<close> or a
  \<^verbatim>\<open>std::shared_ptr<System>\<close>, each identified by a handle.
\<close>

datatype system_ref = SystemPluginPtr nat | SystemSharedPtr nat

text \<open>
  The fields of a \<^verbatim>\<open>SimulationRunner\<close> that the server's code reads or writes through
  the runner's interface. The class itself is not among the sources.
\<close>

record runner =
  rnRunning :: bool
  rnPaused :: bool
  rnIterations :: "64 word"
  rnSystems :: "system_ref list"
  rnEntities :: "(Entity \<times> string) list"
  rnRemoveRequests :: "(Entity \<times> bool) list"
  rnUpdatePeriod :: duration
  rnBlockingPausedStepPending :: bool
  rnFetchedAllIncludes :: bool
  rnWorlds :: "world list"

datatype SourceType = kNone | kSdfRoot | kSdfFile | kSdfString

record ServerConfig =
  cfgSource :: SourceType
  cfgSdfRoot :: sdf_root
  cfgSdfFile :: string
  cfgSdfString :: string
  cfgResourceCache :: string
  cfgDownloadInParallel :: bool
  cfgUseLogRecord :: bool
  cfgUpdatePeriod :: "duration option"

text \<open>
  The functions of other libraries and the constructor that \<^verbatim>\<open>Server.cc\<close> calls and
  that are not among the sources are parameters of the model:
  \<^item> \<open>resolveSdfWorldFile file cache\<close>: the resolved path, empty when the file is not found;
  \<^item> \<open>sdfLoad path\<close> and \<open>sdfLoadSdfString text\<close>: \<^verbatim>\<open>sdf::Root::Load\<close> and
    \<^verbatim>\<open>sdf::Root::LoadSdfString\<close>, giving the error list and the loaded root;
  \<^item> \<open>findFile file\<close>: \<^verbatim>\<open>common::SystemPaths::FindFile\<close> on the configured paths;
  \<^item> \<open>worldNamesFromFile path\<close>: the names \<^verbatim>\<open>sdf::Root::WorldNamesFromFile\<close> collects;
  \<^item> \<open>makeRunner w\<close>: the runner that the \<^verbatim>\<open>SimulationRunner\<close> constructor builds for
    a world;
  \<^item> \<open>addRecordPlugin cfg root\<close>: the root after \<^verbatim>\<open>ServerPrivate::AddRecordPlugin\<close>.
\<close>

record env =
  resolveSdfWorldFile :: "string \<Rightarrow> string \<Rightarrow> string"
  sdfLoad :: "string \<Rightarrow> sdf_errors \<times> sdf_root"
  sdfLoadSdfString :: "string \<Rightarrow> sdf_errors \<times> sdf_root"
  findFile :: "string \<Rightarrow> string"
  worldNamesFromFile :: "string \<Rightarrow> string list"
  makeRunner :: "world \<Rightarrow> runner"
  addRecordPlugin :: "ServerConfig \<Rightarrow> sdf_root \<Rightarrow> sdf_root"

section \<open>The runner interface\<close>

text \<open>
  Modelled from the spec: \<^verbatim>\<open>SimulationRunner::SetPaused\<close> is not among the sources;
  the spec calls it a simple flag accessor.
\<close>

definition runner_SetPaused :: "bool \<Rightarrow> runner \<Rightarrow> runner" where
  "runner_SetPaused p r = r\<lparr>rnPaused := p\<rparr>"

text \<open>
  Modelled from the spec: \<^verbatim>\<open>SimulationRunner::Paused\<close> is not among the sources;
  a simple flag accessor.
\<close>

definition runner_Paused :: "runner \<Rightarrow> bool" where
  "runner_Paused r = rnPaused r"

text \<open>
  Modelled from the spec: \<^verbatim>\<open>SimulationRunner::Running\<close> is not among the sources;
  a simple flag accessor.
\<close>

definition runner_Running :: "runner \<Rightarrow> bool" where
  "runner_Running r = rnRunning r"

text \<open>
  Modelled from the spec: \<^verbatim>\<open>SimulationRunner::IterationCount\<close> is not among the
  sources; the counter of executed steps.
\<close>

definition runner_IterationCount :: "runner \<Rightarrow> 64 word" where
  "runner_IterationCount r = rnIterations r"

text \<open>
  Modelled from the spec: \<^verbatim>\<open>SimulationRunner::EntityCount\<close> is not among the sources;
  a point-in-time count of the entities of the runner's world.
\<close>

definition runner_EntityCount :: "runner \<Rightarrow> nat" where
  "runner_EntityCount r = length (rnEntities r)"

text \<open>
  Modelled from the spec: \<^verbatim>\<open>SimulationRunner::SystemCount\<close> is not among the sources;
  the length of the plugin list.
\<close>

definition runner_SystemCount :: "runner \<Rightarrow> nat" where
  "runner_SystemCount r = length (rnSystems r)"

text \<open>
  Modelled from the spec: \<^verbatim>\<open>SimulationRunner::EntityByName\<close> is not among the sources;
  a by-name lookup in which a missing entity gives an absent result.
\<close>

definition runner_EntityByName :: "string \<Rightarrow> runner \<Rightarrow> Entity option" where
  "runner_EntityByName name r =
     map_option fst (find (\<lambda>en. snd en = name) (rnEntities r))"

text \<open>
  Modelled from the spec: \<^verbatim>\<open>SimulationRunner::HasEntity\<close> is not among the sources;
  whether the by-name lookup finds an entity.
\<close>

definition runner_HasEntity :: "string \<Rightarrow> runner \<Rightarrow> bool" where
  "runner_HasEntity name r = (runner_EntityByName name r \<noteq> None)"

text \<open>
  Modelled from the spec: \<^verbatim>\<open>SimulationRunner::RequestRemoveEntity\<close> (by name) is not
  among the sources; for a name that exists the removal is queued with its recursive flag
  and applied in the next step, for a name that does not exist the call returns false.
\<close>

definition runner_RequestRemoveEntity_name :: "string \<Rightarrow> bool \<Rightarrow> runner \<Rightarrow> bool \<times> runner" where
  "runner_RequestRemoveEntity_name name recursive r =
     (case runner_EntityByName name r of
        None \<Rightarrow> (False, r)
      | Some e \<Rightarrow> (True, r\<lparr>rnRemoveRequests := rnRemoveRequests r @ [(e, recursive)]\<rparr>))"

text \<open>
  Modelled from the spec: \<^verbatim>\<open>SimulationRunner::RequestRemoveEntity\<close> (by entity handle)
  is not among the sources; as by name, for a handle.
\<close>

definition runner_RequestRemoveEntity_entity :: "Entity \<Rightarrow> bool \<Rightarrow> runner \<Rightarrow> bool \<times> runner" where
  "runner_RequestRemoveEntity_entity e recursive r =
     (if e \<in> set (map fst (rnEntities r))
      then (True, r\<lparr>rnRemoveRequests := rnRemoveRequests r @ [(e, recursive)]\<rparr>)
      else (False, r))"

text \<open>
  Modelled from the spec: \<^verbatim>\<open>SimulationRunner::SetUpdatePeriod\<close> is not among the
  sources; it overrides the pacing of the loop and nothing else.
\<close>

definition runner_SetUpdatePeriod :: "duration \<Rightarrow> runner \<Rightarrow> runner" where
  "runner_SetUpdatePeriod d r = r\<lparr>rnUpdatePeriod := d\<rparr>"

text \<open>
  Modelled from the spec: \<^verbatim>\<open>SimulationRunner::AddSystem\<close> is not among the sources;
  it appends to the plugin list. The rejection while running is the guard of
  \<^verbatim>\<open>Server::AddSystem\<close> below, which is translated from the source.
\<close>

definition runner_AddSystem :: "system_ref \<Rightarrow> runner \<Rightarrow> runner" where
  "runner_AddSystem sys r = r\<lparr>rnSystems := rnSystems r @ [sys]\<rparr>"

text \<open>
  Modelled from the spec: \<^verbatim>\<open>SimulationRunner::SetNextStepAsBlockingPaused\<close> is not
  among the sources; it requests the ``blocking paused step'' override of the step loop.
\<close>

definition runner_SetNextStepAsBlockingPaused :: "bool \<Rightarrow> runner \<Rightarrow> runner" where
  "runner_SetNextStepAsBlockingPaused b r = r\<lparr>rnBlockingPausedStepPending := b\<rparr>"

text \<open>
  Modelled from the spec: \<^verbatim>\<open>SimulationRunner::AddWorld\<close> is not among the sources;
  it injects a fully resolved world into the runner.
\<close>

definition runner_AddWorld :: "runner \<Rightarrow> world \<Rightarrow> runner" where
  "runner_AddWorld r w = r\<lparr>rnWorlds := rnWorlds r @ [w]\<rparr>"

text \<open>
  Modelled from the spec: \<^verbatim>\<open>SimulationRunner::SetFetchedAllIncludes\<close> is not among
  the sources; it marks the runner as having completed asset resolution.
\<close>

definition runner_SetFetchedAllIncludes :: "bool \<Rightarrow> runner \<Rightarrow> runner" where
  "runner_SetFetchedAllIncludes b r = r\<lparr>rnFetchedAllIncludes := b\<rparr>"

text \<open>
  Modelled from the spec: one step of \<^verbatim>\<open>SimulationRunner::Run\<close>, which is not among the
  sources. The step invokes the plugins' callbacks (opaque units, whose own state is not
  part of the runner), applies the queued entity-removal requests, then increments the
  iteration counter (a \<^verbatim>\<open>uint64_t\<close>, so the increment wraps).
\<close>

definition runner_Step :: "runner \<Rightarrow> runner" where
  "runner_Step r =
     r\<lparr>rnEntities := filter (\<lambda>en. fst en \<notin> set (map fst (rnRemoveRequests r))) (rnEntities r),
       rnRemoveRequests := [],
       rnIterations := rnIterations r + 1\<rparr>"

text \<open>
  Modelled from the spec: the step loop of \<^verbatim>\<open>SimulationRunner::Run\<close>, which is not
  among the sources. An iteration count of zero means run until externally stopped; a
  positive bound means stop after exactly that many unpaused steps, unless a blocking
  paused step is requested, in which case exactly one step is forced even while paused.
  A paused iteration without the override skips the step. Nothing stops the loop from
  outside in this model, so a loop that waits for that does not return (the value
  \<open>None\<close>). \<open>processed\<close> is the number of steps counted against the bound.
\<close>

partial_function (option) runner_Loop :: "64 word \<Rightarrow> 64 word \<Rightarrow> runner \<Rightarrow> runner option" where
  "runner_Loop iterations processed r =
     (if iterations = 0 \<or> processed < iterations then
        (if \<not> rnPaused r then runner_Loop iterations (processed + 1) (runner_Step r)
         else if rnBlockingPausedStepPending r then
           runner_Loop iterations (processed + 1)
             ((runner_Step r)\<lparr>rnBlockingPausedStepPending := False\<rparr>)
         else runner_Loop iterations processed r)
      else Some r)"

text \<open>
  Modelled from the spec: \<^verbatim>\<open>SimulationRunner::Run\<close> is not among the sources; it
  executes the step loop, and the runner counts as running while the loop runs.
\<close>

definition runner_Run :: "64 word \<Rightarrow> runner \<Rightarrow> runner option" where
  "runner_Run iterations r =
     map_option (\<lambda>r'. r'\<lparr>rnRunning := False\<rparr>) (runner_Loop iterations 0 (r\<lparr>rnRunning := True\<rparr>))"

section \<open>The server (src/Server.cc)\<close>

text \<open>
  \<^verbatim>\<open>std::thread runThread\<close>: default constructed it is not a thread and its id equals
  \<^verbatim>\<open>std::thread::id()\<close>; once assigned it runs \<^verbatim>\<open>ServerPrivate::Run\<close> with the
  given iteration bound.
\<close>

datatype thread = NotAThread | RunThread "64 word"

text \<open>
  The state that \<^verbatim>\<open>Server.cc\<close> reads and writes through \<^verbatim>\<open>dataPtr\<close>, together with
  \<^item> \<open>sigHandlerInitialized\<close>: what \<^verbatim>\<open>sigHandler.Initialized()\<close> answers;
  \<^item> \<open>runThreadsCreated\<close>: the number of \<^verbatim>\<open>std::thread\<close> objects that
    \<^verbatim>\<open>Server::Run\<close> has constructed for this server;
  \<^item> \<open>downloadModelsThread\<close>: whether \<^verbatim>\<open>Server::Init\<close> has started the download task;
  \<^item> \<open>defaultWorldStatic\<close>: the function-local static string of
    \<^verbatim>\<open>DefaultWorld::World\<close>, \<open>None\<close> before its first call. It belongs to the process,
    not to one server: a server constructed later in the same process starts with the
    value the earlier ones left;
  \<^item> \<open>transportSetUp\<close>: whether \<^verbatim>\<open>SetupTransport\<close> has been called.
\<close>

record server =
  config :: ServerConfig
  sdfRoot :: sdf_root
  simRunners :: "runner list"
  running :: bool
  sigHandlerInitialized :: bool
  runThread :: thread
  runThreadsCreated :: nat
  downloadModelsThread :: bool
  defaultWorldStatic :: "string option"
  transportSetUp :: bool

subsection \<open>The default world\<close>

text \<open>
  The string that the initialiser of the static in \<^verbatim>\<open>DefaultWorld::World\<close> builds from
  a world name. The quote character is written \<open>CHR 0x27\<close> where it ends a literal.
\<close>

definition DefaultWorld_text :: "string \<Rightarrow> string" where
  "DefaultWorld_text worldName =
     (''<?xml version='1.0'?>'' @
      ''<sdf version='1.6'>'' @
        ''<world name='' @ [CHR 0x27] @ worldName @ [CHR 0x27] @ ''>'') @
        ''</world>'' @
      ''</sdf>''"

text \<open>
  \<^verbatim>\<open>DefaultWorld::World(_worldName)\<close>. The string is a function-local static: its
  initialiser runs on the first call only, and every call returns the static. The static
  is passed in and returned.
\<close>

definition DefaultWorld_World :: "string \<Rightarrow> string option \<Rightarrow> string \<times> string option" where
  "DefaultWorld_World worldName static =
     (case static of
        None \<Rightarrow> (DefaultWorld_text worldName, Some (DefaultWorld_text worldName))
      | Some w \<Rightarrow> (w, Some w))"

subsection \<open>Downloading the models\<close>

text \<open>
  The polling loops of \<^verbatim>\<open>DownloadModels\<close>:
  \<^verbatim>\<open>while (cond && simRunners.size() == 0) sleep_for(100ms)\<close>. The body changes nothing,
  and the runner collection is filled by the initialising thread; the task sees the
  collection of the state it runs in, so in a state without runners the loop does not
  return.
\<close>

partial_function (option) waitForRunners :: "bool \<Rightarrow> server \<Rightarrow> server option" where
  "waitForRunners cond s =
     (if cond \<and> length (simRunners s) = 0 then waitForRunners cond s else Some s)"

text \<open>The end of \<^verbatim>\<open>DownloadModels\<close>: false when the error list is not empty.\<close>

definition DownloadModels_finish :: "sdf_errors \<Rightarrow> server \<Rightarrow> (bool \<times> server) option" where
  "DownloadModels_finish errors s = (if errors \<noteq> [] then Some (False, s) else Some (True, s))"

text \<open>
  \<^verbatim>\<open>Server::DownloadModels\<close>. The result is \<open>None\<close> when the call does not return,
  and the returned flag with the state otherwise. Log output is not modelled.
\<close>

definition Server_DownloadModels :: "env \<Rightarrow> server \<Rightarrow> (bool \<times> server) option" where
  "Server_DownloadModels ev s =
     (case cfgSource (config s) of
        kSdfRoot \<Rightarrow>
          DownloadModels_finish [] (s\<lparr>sdfRoot := cfgSdfRoot (config s)\<rparr>)
      | kSdfString \<Rightarrow>
          (case sdfLoadSdfString ev (cfgSdfString (config s)) of
             (errors, root) \<Rightarrow> DownloadModels_finish errors (s\<lparr>sdfRoot := root\<rparr>))
      | kSdfFile \<Rightarrow>
          (let filePath = resolveSdfWorldFile ev (cfgSdfFile (config s))
                            (cfgResourceCache (config s))
           in if filePath = [] then Some (False, s)
              else
                (case waitForRunners (cfgDownloadInParallel (config s)) s of
                   None \<Rightarrow> None
                 | Some s1 \<Rightarrow>
                     (case sdfLoad ev filePath of
                        (errors, root) \<Rightarrow>
                          (let s2 = s1\<lparr>sdfRoot := root\<rparr>
                           in if \<not> cfgDownloadInParallel (config s2) then Some (True, s2)
                              else if length (rootWorlds (sdfRoot s2)) = 0 then Some (False, s2)
                              else
                                (case waitForRunners True s2 of
                                   None \<Rightarrow> None
                                 | Some s3 \<Rightarrow>
                                     DownloadModels_finish errors
                                       (s3\<lparr>simRunners :=
                                            map (\<lambda>r. runner_SetFetchedAllIncludes True
                                                        (foldl runner_AddWorld r
                                                           (rootWorlds (sdfRoot s3))))
                                              (simRunners s3)\<rparr>))))))
      | kNone \<Rightarrow>
          (case DefaultWorld_World ''default'' (defaultWorldStatic s) of
             (txt, static) \<Rightarrow>
               (case sdfLoadSdfString ev txt of
                  (errors, root) \<Rightarrow>
                    DownloadModels_finish errors
                      (s\<lparr>defaultWorldStatic := static, sdfRoot := root\<rparr>))))"

subsection \<open>World-indexed access to the runners\<close>

text \<open>
  \<^verbatim>\<open>simRunners[_worldIndex]\<close> is an unchecked read of a \<^verbatim>\<open>std::vector\<close>: out of
  range it is undefined behaviour, which the model reports as a fault.
\<close>

datatype fault = OutOfBounds

definition runnerAt :: "runner list \<Rightarrow> nat \<Rightarrow> fault + runner" where
  "runnerAt rs i = (if i < length rs then Inr (rs ! i) else Inl OutOfBounds)"

text \<open>\<^verbatim>\<open>simRunners[i]->f()\<close> for a method that only reads the runner.\<close>

definition readRunner :: "server \<Rightarrow> 32 word \<Rightarrow> (runner \<Rightarrow> 'a) \<Rightarrow> fault + 'a" where
  "readRunner s i f =
     (case runnerAt (simRunners s) (unat i) of Inl e \<Rightarrow> Inl e | Inr r \<Rightarrow> Inr (f r))"

text \<open>\<^verbatim>\<open>simRunners[i]->f()\<close> for a method that returns a value and changes the runner.\<close>

definition callRunner :: "server \<Rightarrow> 32 word \<Rightarrow> (runner \<Rightarrow> 'a \<times> runner) \<Rightarrow> fault + ('a \<times> server)" where
  "callRunner s i f =
     (case runnerAt (simRunners s) (unat i) of
        Inl e \<Rightarrow> Inl e
      | Inr r \<Rightarrow>
          (case f r of
             (a, r') \<Rightarrow> Inr (a, s\<lparr>simRunners := (simRunners s)[unat i := r']\<rparr>)))"

definition Server_SetUpdatePeriod :: "duration \<Rightarrow> 32 word \<Rightarrow> server \<Rightarrow> fault + server" where
  "Server_SetUpdatePeriod updatePeriod worldIndex s =
     (if unat worldIndex < length (simRunners s)
      then map_sum id snd
             (callRunner s worldIndex (\<lambda>r. ((), runner_SetUpdatePeriod updatePeriod r)))
      else Inr s)"

definition Server_Running :: "server \<Rightarrow> bool" where
  "Server_Running s = running s"

definition Server_Running_at :: "server \<Rightarrow> 32 word \<Rightarrow> fault + bool option" where
  "Server_Running_at s worldIndex =
     (if unat worldIndex < length (simRunners s)
      then readRunner s worldIndex (\<lambda>r. Some (runner_Running r))
      else Inr None)"

definition Server_SetPaused :: "bool \<Rightarrow> 32 word \<Rightarrow> server \<Rightarrow> fault + (bool \<times> server)" where
  "Server_SetPaused paused worldIndex s =
     (if unat worldIndex < length (simRunners s)
      then callRunner s worldIndex (\<lambda>r. (True, runner_SetPaused paused r))
      else Inr (False, s))"

definition Server_Paused :: "server \<Rightarrow> 32 word \<Rightarrow> fault + bool option" where
  "Server_Paused s worldIndex =
     (if unat worldIndex < length (simRunners s)
      then readRunner s worldIndex (\<lambda>r. Some (runner_Paused r))
      else Inr None)"

definition Server_IterationCount :: "server \<Rightarrow> 32 word \<Rightarrow> fault + 64 word option" where
  "Server_IterationCount s worldIndex =
     (if unat worldIndex < length (simRunners s)
      then readRunner s worldIndex (\<lambda>r. Some (runner_IterationCount r))
      else Inr None)"

definition Server_EntityCount :: "server \<Rightarrow> 32 word \<Rightarrow> fault + nat option" where
  "Server_EntityCount s worldIndex =
     (if unat worldIndex < length (simRunners s)
      then readRunner s worldIndex (\<lambda>r. Some (runner_EntityCount r))
      else Inr None)"

definition Server_SystemCount :: "server \<Rightarrow> 32 word \<Rightarrow> fault + nat option" where
  "Server_SystemCount s worldIndex =
     (if unat worldIndex < length (simRunners s)
      then readRunner s worldIndex (\<lambda>r. Some (runner_SystemCount r))
      else Inr None)"

text \<open>
  \<^verbatim>\<open>Server::AddSystem(const SystemPluginPtr &, unsigned int)\<close>; the argument is the
  handle of the plugin.
\<close>

definition Server_AddSystem_plugin :: "nat \<Rightarrow> 32 word \<Rightarrow> server \<Rightarrow> fault + (bool option \<times> server)" where
  "Server_AddSystem_plugin system worldIndex s =
     (if running s then Inr (Some False, s)
      else if unat worldIndex < length (simRunners s)
      then callRunner s worldIndex (\<lambda>r. (Some True, runner_AddSystem (SystemPluginPtr system) r))
      else Inr (None, s))"

text \<open>
  \<^verbatim>\<open>Server::AddSystem(const std::shared_ptr<System> &, unsigned int)\<close>; the argument
  is the handle of the system.
\<close>

definition Server_AddSystem_shared :: "nat \<Rightarrow> 32 word \<Rightarrow> server \<Rightarrow> fault + (bool option \<times> server)" where
  "Server_AddSystem_shared system worldIndex s =
     (if running s then Inr (Some False, s)
      else if unat worldIndex < length (simRunners s)
      then callRunner s worldIndex (\<lambda>r. (Some True, runner_AddSystem (SystemSharedPtr system) r))
      else Inr (None, s))"

definition Server_HasEntity :: "string \<Rightarrow> server \<Rightarrow> 32 word \<Rightarrow> fault + bool" where
  "Server_HasEntity name s worldIndex =
     (if unat worldIndex < length (simRunners s)
      then readRunner s worldIndex (runner_HasEntity name)
      else Inr False)"

definition Server_EntityByName :: "string \<Rightarrow> server \<Rightarrow> 32 word \<Rightarrow> fault + Entity option" where
  "Server_EntityByName name s worldIndex =
     (if unat worldIndex < length (simRunners s)
      then readRunner s worldIndex (runner_EntityByName name)
      else Inr None)"

definition Server_RequestRemoveEntity_name ::
    "string \<Rightarrow> bool \<Rightarrow> 32 word \<Rightarrow> server \<Rightarrow> fault + (bool \<times> server)" where
  "Server_RequestRemoveEntity_name name recursive worldIndex s =
     (if unat worldIndex < length (simRunners s)
      then callRunner s worldIndex (runner_RequestRemoveEntity_name name recursive)
      else Inr (False, s))"

definition Server_RequestRemoveEntity_entity ::
    "Entity \<Rightarrow> bool \<Rightarrow> 32 word \<Rightarrow> server \<Rightarrow> fault + (bool \<times> server)" where
  "Server_RequestRemoveEntity_entity entity recursive worldIndex s =
     (if unat worldIndex < length (simRunners s)
      then callRunner s worldIndex (runner_RequestRemoveEntity_entity entity recursive)
      else Inr (False, s))"

subsection \<open>Initialisation\<close>

text \<open>
  Modelled from the spec: \<^verbatim>\<open>ServerPrivate::CreateEntities\<close> is not among the sources;
  the server constructs one runner per world of the description it holds.
\<close>

definition ServerPrivate_CreateEntities :: "env \<Rightarrow> server \<Rightarrow> server" where
  "ServerPrivate_CreateEntities ev s =
     s\<lparr>simRunners := simRunners s @ map (makeRunner ev) (rootWorlds (sdfRoot s))\<rparr>"

text \<open>
  Modelled from the spec: \<^verbatim>\<open>ServerPrivate::SetupTransport\<close> is not among the sources;
  the transport layer is a sink and source of control messages outside the server's
  state, so the call is only recorded.
\<close>

definition ServerPrivate_SetupTransport :: "server \<Rightarrow> server" where
  "ServerPrivate_SetupTransport s = s\<lparr>transportSetUp := True\<rparr>"

text \<open>
  The part of \<^verbatim>\<open>Server::Init\<close> after the world description has been obtained (from the
  check of its local error list on). A fault of the indexed access is passed on.
\<close>

definition Init_create :: "env \<Rightarrow> sdf_errors \<Rightarrow> server \<Rightarrow> fault + server" where
  "Init_create ev errors s =
     (if errors \<noteq> [] then Inr s
      else
        (let s1 = (if cfgUseLogRecord (config s)
                   then s\<lparr>sdfRoot := addRecordPlugin ev (config s) (sdfRoot s)\<rparr>
                   else s);
             s2 = ServerPrivate_CreateEntities ev s1
         in map_sum id ServerPrivate_SetupTransport
              (case cfgUpdatePeriod (config s2) of
                 None \<Rightarrow> Inr s2
               | Some period \<Rightarrow> Server_SetUpdatePeriod period 0 s2)))"

text \<open>
  \<^verbatim>\<open>Server::Init\<close>. The configuration of the fuel client, the registration of the
  find callbacks and \<^verbatim>\<open>addResourcePaths\<close> act on other libraries and are not part of
  the state. With parallel downloading the download task is started and runs beside the
  rest of \<^verbatim>\<open>Init\<close>: its body is \<open>Server_DownloadModels\<close>, run by the task on the
  state it finds. The result is \<open>None\<close> when \<^verbatim>\<open>Init\<close> does not return.
\<close>

definition Server_Init :: "env \<Rightarrow> server \<Rightarrow> (fault + server) option" where
  "Server_Init ev s =
     (if cfgDownloadInParallel (config s) then
        (let s1 = s\<lparr>downloadModelsThread := True\<rparr>;
             filePath = findFile ev (cfgSdfFile (config s1));
             worldNames = worldNamesFromFile ev filePath
         in case worldNames of
              [] \<Rightarrow> Some (Inr s1)
            | worldName # _ \<Rightarrow>
                (case DefaultWorld_World worldName (defaultWorldStatic s1) of
                   (txt, static) \<Rightarrow>
                     (case sdfLoadSdfString ev txt of
                        (errors, root) \<Rightarrow>
                          Some (Init_create ev errors
                                  (s1\<lparr>defaultWorldStatic := static, sdfRoot := root\<rparr>)))))
      else
        (case Server_DownloadModels ev s of
           None \<Rightarrow> None
         | Some (ok, s1) \<Rightarrow> if \<not> ok then Some (Inr s1) else Some (Init_create ev [] s1)))"

text \<open>
  \<^verbatim>\<open>Server::Server(_config)\<close>: a fresh private state with the configuration, then
  \<^verbatim>\<open>Init\<close>. \<open>sig\<close> is whether the signal handlers of the private state were created,
  \<open>static\<close> the static string of \<^verbatim>\<open>DefaultWorld::World\<close> in this process.
\<close>

definition Server_fresh :: "ServerConfig \<Rightarrow> bool \<Rightarrow> string option \<Rightarrow> server" where
  "Server_fresh cfg sig static =
     \<lparr>config = cfg, sdfRoot = sdf_root_empty, simRunners = [], running = False,
      sigHandlerInitialized = sig, runThread = NotAThread, runThreadsCreated = 0,
      downloadModelsThread = False, defaultWorldStatic = static, transportSetUp = False\<rparr>"

definition Server_Server :: "env \<Rightarrow> ServerConfig \<Rightarrow> bool \<Rightarrow> string option \<Rightarrow> (fault + server) option" where
  "Server_Server ev cfg sig static = Server_Init ev (Server_fresh cfg sig static)"

subsection \<open>Running\<close>

text \<open>The runners of a server run one after the other; the first that does not return
  keeps the whole run from returning.\<close>

fun runAll :: "64 word \<Rightarrow> runner list \<Rightarrow> runner list option" where
  "runAll iterations [] = Some []"
| "runAll iterations (r # rs) =
     (case runner_Run iterations r of
        None \<Rightarrow> None
      | Some r' \<Rightarrow>
          (case runAll iterations rs of None \<Rightarrow> None | Some rs' \<Rightarrow> Some (r' # rs')))"

text \<open>
  Modelled from the spec: \<^verbatim>\<open>ServerPrivate::Run\<close> is not among the sources. It is the
  shared run routine: the server enters \<open>Running\<close>, its runners are stepped sequentially
  on the one simulation thread, and when they are done the server is \<open>Stopped\<close> and the
  routine reports success.
\<close>

definition ServerPrivate_Run :: "64 word \<Rightarrow> server \<Rightarrow> (bool \<times> server) option" where
  "ServerPrivate_Run iterations s =
     (let s1 = s\<lparr>running := True\<rparr>
      in case runAll iterations (simRunners s1) of
           None \<Rightarrow> None
         | Some rs \<Rightarrow> Some (True, s1\<lparr>simRunners := rs, running := False\<rparr>))"

text \<open>
  \<^verbatim>\<open>Server::Run(_blocking, _iterations, _paused)\<close>. In the non-blocking case the new
  thread starts \<^verbatim>\<open>ServerPrivate::Run\<close>, and the caller returns once the thread has
  signalled that it has started, that is once it has set the running flag; what the thread
  does after that happens beside the caller and is not part of the state returned here.
\<close>

definition Server_Run :: "bool \<Rightarrow> 64 word \<Rightarrow> bool \<Rightarrow> server \<Rightarrow> (bool \<times> server) option" where
  "Server_Run blocking iterations paused s =
     (let s1 = s\<lparr>simRunners := map (runner_SetPaused paused) (simRunners s)\<rparr>
      in if \<not> sigHandlerInitialized s1 then Some (False, s1)
         else if running s1 then Some (False, s1)
         else if blocking then ServerPrivate_Run iterations s1
         else if runThread s1 = NotAThread then
           Some (True, s1\<lparr>runThread := RunThread iterations,
                          runThreadsCreated := runThreadsCreated s1 + 1,
                          running := True\<rparr>)
         else Some (False, s1))"

definition Server_RunOnce :: "bool \<Rightarrow> server \<Rightarrow> (bool \<times> server) option" where
  "Server_RunOnce paused s =
     (let s1 = (if paused
                then s\<lparr>simRunners :=
                         map (runner_SetNextStepAsBlockingPaused True) (simRunners s)\<rparr>
                else s)
      in Server_Run True 1 paused s1)"

subsection \<open>The spec's reading of RunOnce\<close>

text \<open>
  \<^verbatim>\<open>RunOnce(paused)\<close> in the words of the spec, for comparison with \<open>Server_RunOnce\<close>
  above: a blocking run of one iteration with the given pause state, in which, when
  \<open>paused\<close> is true, the next step of every runner has first been marked as a forced
  blocking-paused step.
\<close>

definition RunOnce_spec :: "bool \<Rightarrow> server \<Rightarrow> (bool \<times> server) option" where
  "RunOnce_spec paused s =
     Server_Run True 1 paused
       (s\<lparr>simRunners :=
            map (\<lambda>r. if paused then r\<lparr>rnBlockingPausedStepPending := True\<rparr> else r)
              (simRunners s)\<rparr>)"

section \<open>Sample inputs\<close>

definition swRunningSample :: stopwatch where
  "swRunningSample =
     \<lparr>swRunning = True, swStartTime = 100, swStopTime = 40,
      swStopDuration = 7, swRunDuration = 12\<rparr>"

definition swStoppedSample :: stopwatch where
  "swStoppedSample =
     \<lparr>swRunning = False, swStartTime = 100, swStopTime = 160,
      swStopDuration = 7, swRunDuration = 72\<rparr>"

definition sampleWorld :: "string \<Rightarrow> world" where
  "sampleWorld n = \<lparr>wName = n, wEntities = []\<rparr>"

definition sampleShapes :: world where
  "sampleShapes = \<lparr>wName = ''shapes'', wEntities = [''box'', ''sphere'']\<rparr>"

definition sampleRunner :: "world \<Rightarrow> runner" where
  "sampleRunner w =
     \<lparr>rnRunning = False, rnPaused = False, rnIterations = 0, rnSystems = [],
      rnEntities = [(1, wName w)], rnRemoveRequests = [], rnUpdatePeriod = 0,
      rnBlockingPausedStepPending = False, rnFetchedAllIncludes = False, rnWorlds = [w]\<rparr>"

text \<open>
  A stand-in for the SDF parser on strings: it accepts a text that starts like the default
  world's and reads the world name up to the closing quote.
\<close>

definition sampleHeader :: string where
  "sampleHeader = ''<?xml version='1.0'?><sdf version='1.6'><world name='' @ [CHR 0x27]"

definition sampleLoadSdfString :: "string \<Rightarrow> sdf_errors \<times> sdf_root" where
  "sampleLoadSdfString txt =
     (if take (length sampleHeader) txt = sampleHeader
      then ([], \<lparr>rootWorlds =
                   [sampleWorld (takeWhile (\<lambda>c. c \<noteq> CHR 0x27) (drop (length sampleHeader) txt))]\<rparr>)
      else ([''Unable to read the SDF string''], sdf_root_empty))"

text \<open>An environment with one world file, \<open>shapes.sdf\<close>, which loads without errors.\<close>

definition sampleEnv :: env where
  "sampleEnv =
     \<lparr>resolveSdfWorldFile =
        (\<lambda>file cache. if file = ''shapes.sdf'' then ''/worlds/shapes.sdf'' else []),
      sdfLoad =
        (\<lambda>path. if path = ''/worlds/shapes.sdf''
                 then ([], \<lparr>rootWorlds = [sampleShapes]\<rparr>)
                 else ([''Error reading the file''], sdf_root_empty)),
      sdfLoadSdfString = sampleLoadSdfString,
      findFile = (\<lambda>file. if file = ''shapes.sdf'' then ''/worlds/shapes.sdf'' else []),
      worldNamesFromFile = (\<lambda>path. if path = ''/worlds/shapes.sdf'' then [''shapes''] else []),
      makeRunner = sampleRunner,
      addRecordPlugin = (\<lambda>cfg root. root)\<rparr>"

text \<open>The same, with a parser that reports an error for the file and still loads its world.\<close>

definition sampleEnvErrors :: env where
  "sampleEnvErrors =
     sampleEnv\<lparr>sdfLoad := (\<lambda>path. ([''Unknown element''], \<lparr>rootWorlds = [sampleShapes]\<rparr>))\<rparr>"

text \<open>The same, with a second world file, \<open>lake.sdf\<close>, whose one world is named \<open>lake\<close>.\<close>

definition sampleEnvLake :: env where
  "sampleEnvLake =
     sampleEnv
       \<lparr>findFile := (\<lambda>file. if file = ''lake.sdf'' then ''/worlds/lake.sdf''
                           else findFile sampleEnv file),
        worldNamesFromFile := (\<lambda>path. if path = ''/worlds/lake.sdf'' then [''lake'']
                                     else worldNamesFromFile sampleEnv path)\<rparr>"

text \<open>The same, with a file that loads without errors and holds no world.\<close>

definition sampleEnvNoWorld :: env where
  "sampleEnvNoWorld = sampleEnv\<lparr>sdfLoad := (\<lambda>path. ([], sdf_root_empty))\<rparr>"

definition sampleConfig :: ServerConfig where
  "sampleConfig =
     \<lparr>cfgSource = kNone, cfgSdfRoot = sdf_root_empty, cfgSdfFile = [], cfgSdfString = [],
      cfgResourceCache = [], cfgDownloadInParallel = False, cfgUseLogRecord = False,
      cfgUpdatePeriod = None\<rparr>"

definition sampleFileConfig :: "string \<Rightarrow> bool \<Rightarrow> ServerConfig" where
  "sampleFileConfig file parallel =
     sampleConfig\<lparr>cfgSource := kSdfFile, cfgSdfFile := file, cfgDownloadInParallel := parallel\<rparr>"

definition sampleStringConfig :: "string \<Rightarrow> ServerConfig" where
  "sampleStringConfig txt = sampleConfig\<lparr>cfgSource := kSdfString, cfgSdfString := txt\<rparr>"

text \<open>An initialised server with the default world and one runner, not running.\<close>

definition sampleServer :: server where
  "sampleServer =
     (Server_fresh sampleConfig True None)
       \<lparr>sdfRoot := \<lparr>rootWorlds = [sampleWorld ''default'']\<rparr>,
        simRunners := [sampleRunner (sampleWorld ''default'')],
        defaultWorldStatic := Some (DefaultWorld_text ''default''),
        transportSetUp := True\<rparr>"

text \<open>The same server while its control thread runs.\<close>

definition sampleServerRunning :: server where
  "sampleServerRunning =
     sampleServer\<lparr>running := True, runThread := RunThread 0, runThreadsCreated := 1\<rparr>"

text \<open>
  The same server while another thread is inside a blocking \<^verbatim>\<open>Run\<close>: the running flag is
  set and no control thread has been created.
\<close>

definition sampleServerBlockingRun :: server where
  "sampleServerBlockingRun = sampleServer\<lparr>running := True\<rparr>"

text \<open>
  A server with parallel downloading for the given file, with the runner of a provisional
  world named \<open>shapes\<close>, as the download task finds it.
\<close>

definition sampleParallelServer :: "string \<Rightarrow> server" where
  "sampleParallelServer file =
     (Server_fresh (sampleFileConfig file True) True (Some (DefaultWorld_text ''shapes'')))
       \<lparr>downloadModelsThread := True,
        sdfRoot := \<lparr>rootWorlds = [sampleWorld ''shapes'']\<rparr>,
        simRunners := [sampleRunner (sampleWorld ''shapes'')],
        transportSetUp := True\<rparr>"

section \<open>Auxiliary facts\<close>

subsection \<open>The loops\<close>

lemma runner_Loop_done:
  "\<not> (iterations = 0 \<or> processed < iterations) \<Longrightarrow>
   runner_Loop iterations processed r = Some r"
  by (subst runner_Loop.simps) simp

lemma runner_Loop_unpaused:
  "iterations = 0 \<or> processed < iterations \<Longrightarrow> \<not> rnPaused r \<Longrightarrow>
   runner_Loop iterations processed r = runner_Loop iterations (processed + 1) (runner_Step r)"
  by (subst runner_Loop.simps) simp

lemma runner_Loop_forced:
  "iterations = 0 \<or> processed < iterations \<Longrightarrow> rnPaused r \<Longrightarrow>
   rnBlockingPausedStepPending r \<Longrightarrow>
   runner_Loop iterations processed r =
     runner_Loop iterations (processed + 1)
       ((runner_Step r)\<lparr>rnBlockingPausedStepPending := False\<rparr>)"
  by (subst runner_Loop.simps) simp

text \<open>One bounded iteration of an unpaused runner is one step.\<close>

lemma runner_Run_once_unpaused:
  "\<not> rnPaused r \<Longrightarrow> runner_Run 1 r = Some ((runner_Step r)\<lparr>rnRunning := False\<rparr>)"
  by (simp add: runner_Run_def runner_Loop_unpaused runner_Loop_done runner_Step_def)

text \<open>One bounded iteration of a paused runner with the override is the forced step.\<close>

lemma runner_Run_once_forced:
  "rnPaused r \<Longrightarrow> rnBlockingPausedStepPending r \<Longrightarrow>
   runner_Run 1 r =
     Some ((runner_Step r)\<lparr>rnBlockingPausedStepPending := False, rnRunning := False\<rparr>)"
  by (simp add: runner_Run_def runner_Loop_forced runner_Loop_done runner_Step_def)

lemma runAll_map:
  "\<forall>r \<in> set rs. runner_Run n r = Some (f r) \<Longrightarrow> runAll n rs = Some (map f rs)"
  by (induction rs) simp_all

lemma waitForRunners_pass:
  "\<not> (cond \<and> length (simRunners s) = 0) \<Longrightarrow> waitForRunners cond s = Some s"
  by (subst waitForRunners.simps) auto

lemma waitForRunners_Some:
  assumes "waitForRunners cond s = Some s'"
  shows "s' = s \<and> \<not> (cond \<and> simRunners s = [])"
  by (rule waitForRunners.raw_induct
        [where P = "\<lambda>cond s s'. s' = s \<and> \<not> (cond \<and> simRunners s = [])", OF _ assms])
     (auto split: if_splits)

text \<open>The download task never leaves the poll in a state without runners.\<close>

lemma waitForRunners_blocked:
  "cond \<Longrightarrow> simRunners s = [] \<Longrightarrow> waitForRunners cond s = None"
  using waitForRunners_Some [of cond s] by (cases "waitForRunners cond s") auto

lemma foldl_AddWorld_running: "rnRunning (foldl runner_AddWorld r ws) = rnRunning r"
  by (induction ws arbitrary: r) (simp_all add: runner_AddWorld_def)

subsection \<open>The sample parser\<close>

lemma sampleLoad_default_text:
  assumes "CHR 0x27 \<notin> set n"
  shows "sampleLoadSdfString (DefaultWorld_text n) = ([], \<lparr>rootWorlds = [sampleWorld n]\<rparr>)"
proof -
  have parts: "DefaultWorld_text n = sampleHeader @ n @ CHR 0x27 # ''></world></sdf>''"
    by (simp add: DefaultWorld_text_def sampleHeader_def)
  have "takeWhile (\<lambda>c. c \<noteq> CHR 0x27) (n @ CHR 0x27 # ''></world></sdf>'') = n"
    using assms by (induction n) auto
  then show ?thesis
    by (simp add: sampleLoadSdfString_def parts)
qed

subsection \<open>World indices out of range\<close>

lemma accessors_out_of_range:
  assumes "length (simRunners s) \<le> unat worldIndex"
  shows "Server_Running_at s worldIndex = Inr None"
    and "Server_Paused s worldIndex = Inr None"
    and "Server_IterationCount s worldIndex = Inr None"
    and "Server_EntityCount s worldIndex = Inr None"
    and "Server_SystemCount s worldIndex = Inr None"
    and "Server_HasEntity name s worldIndex = Inr False"
    and "Server_EntityByName name s worldIndex = Inr None"
    and "Server_RequestRemoveEntity_name name recursive worldIndex s = Inr (False, s)"
    and "Server_RequestRemoveEntity_entity entity recursive worldIndex s = Inr (False, s)"
    and "Server_SetPaused paused worldIndex s = Inr (False, s)"
    and "Server_SetUpdatePeriod period worldIndex s = Inr s"
    and "Server_AddSystem_plugin sys worldIndex s =
           Inr (if running s then Some False else None, s)"
    and "Server_AddSystem_shared sys worldIndex s =
           Inr (if running s then Some False else None, s)"
  using assms
  by (simp_all add: Server_Running_at_def Server_Paused_def Server_IterationCount_def
      Server_EntityCount_def Server_SystemCount_def Server_HasEntity_def Server_EntityByName_def
      Server_RequestRemoveEntity_name_def Server_RequestRemoveEntity_entity_def
      Server_SetPaused_def Server_SetUpdatePeriod_def Server_AddSystem_plugin_def
      Server_AddSystem_shared_def)

text \<open>
  The guard in front of every indexed access keeps the access in range: no accessor
  reports a fault, for any index.
\<close>

lemma accessors_never_fault:
  "Server_Running_at s i \<noteq> Inl f"
  "Server_Paused s i \<noteq> Inl f"
  "Server_IterationCount s i \<noteq> Inl f"
  "Server_EntityCount s i \<noteq> Inl f"
  "Server_SystemCount s i \<noteq> Inl f"
  "Server_HasEntity name s i \<noteq> Inl f"
  "Server_EntityByName name s i \<noteq> Inl f"
  "Server_RequestRemoveEntity_name name recursive i s \<noteq> Inl f"
  "Server_RequestRemoveEntity_entity entity recursive i s \<noteq> Inl f"
  "Server_SetPaused paused i s \<noteq> Inl f"
  "Server_SetUpdatePeriod period i s \<noteq> Inl f"
  "Server_AddSystem_plugin sys i s \<noteq> Inl f"
  "Server_AddSystem_shared sys i s \<noteq> Inl f"
  by (simp_all add: Server_Running_at_def Server_Paused_def Server_IterationCount_def
      Server_EntityCount_def Server_SystemCount_def Server_HasEntity_def Server_EntityByName_def
      Server_RequestRemoveEntity_name_def Server_RequestRemoveEntity_entity_def
      Server_SetPaused_def Server_SetUpdatePeriod_def Server_AddSystem_plugin_def
      Server_AddSystem_shared_def readRunner_def callRunner_def runnerAt_def split: prod.splits)

subsection \<open>Downloading without the parallel task\<close>

text \<open>
  With parallel downloading disabled, a file source whose path resolves makes
  \<^verbatim>\<open>DownloadModels\<close> return true right after the load, whatever error list the load
  gave: the check of the error list at the end of the function is not reached.
\<close>

lemma DownloadModels_file_sync:
  assumes "cfgSource (config s) = kSdfFile" and "\<not> cfgDownloadInParallel (config s)"
    and "resolveSdfWorldFile ev (cfgSdfFile (config s)) (cfgResourceCache (config s)) = path"
    and "path \<noteq> []"
  shows "Server_DownloadModels ev s = Some (True, s\<lparr>sdfRoot := snd (sdfLoad ev path)\<rparr>)"
  using assms
  by (simp add: Server_DownloadModels_def Let_def waitForRunners_pass split: prod.splits)

lemma DownloadModels_sync_fail:
  assumes "\<not> cfgDownloadInParallel (config s)"
    and "(cfgSource (config s) = kSdfFile \<and>
          resolveSdfWorldFile ev (cfgSdfFile (config s)) (cfgResourceCache (config s)) = []) \<or>
         (cfgSource (config s) = kSdfString \<and>
          fst (sdfLoadSdfString ev (cfgSdfString (config s))) \<noteq> []) \<or>
         (cfgSource (config s) = kNone \<and>
          fst (sdfLoadSdfString ev
                 (fst (DefaultWorld_World ''default'' (defaultWorldStatic s)))) \<noteq> [])"
  shows "\<exists>s'. Server_DownloadModels ev s = Some (False, s') \<and>
              simRunners s' = simRunners s \<and> transportSetUp s' = transportSetUp s"
  using assms
  by (auto simp: Server_DownloadModels_def Let_def DownloadModels_finish_def split: prod.splits)

subsection \<open>Downloading in the parallel task\<close>

text \<open>
  With parallel downloading enabled and a path that resolves, the task polls for runners
  before it loads the file: run in a state without runners it does not return.
\<close>

lemma DownloadModels_parallel_blocked:
  assumes "cfgSource (config s) = kSdfFile" and "cfgDownloadInParallel (config s)"
    and "resolveSdfWorldFile ev (cfgSdfFile (config s)) (cfgResourceCache (config s)) \<noteq> []"
    and "simRunners s = []"
  shows "Server_DownloadModels ev s = None"
  using assms by (simp add: Server_DownloadModels_def Let_def waitForRunners_blocked)

subsection \<open>The single step of RunOnce\<close>

lemma mark_all_runners:
  "map (runner_SetNextStepAsBlockingPaused True) rs =
   map (\<lambda>r. r\<lparr>rnBlockingPausedStepPending := True\<rparr>) rs"
  by (simp add: runner_SetNextStepAsBlockingPaused_def)

lemma RunOnce_eq_spec: "Server_RunOnce paused s = RunOnce_spec paused s"
  by (cases paused) (simp_all add: Server_RunOnce_def RunOnce_spec_def mark_all_runners)

lemma RunOnce_result:
  assumes "sigHandlerInitialized s" and "\<not> running s"
  shows "Server_RunOnce paused s =
           Some (True,
             s\<lparr>simRunners :=
                 map (\<lambda>r. (runner_Step r)
                        \<lparr>rnPaused := paused,
                         rnBlockingPausedStepPending :=
                           (if paused then False else rnBlockingPausedStepPending r),
                         rnRunning := False\<rparr>)
                   (simRunners s)\<rparr>)"
proof (cases paused)
  case True
  let ?rs = "map (runner_SetPaused True)
               (map (runner_SetNextStepAsBlockingPaused True) (simRunners s))"
  let ?f = "\<lambda>r. (runner_Step r)\<lparr>rnBlockingPausedStepPending := False, rnRunning := False\<rparr>"
  have "\<forall>r \<in> set ?rs. runner_Run 1 r = Some (?f r)"
    by (auto simp: runner_SetPaused_def runner_SetNextStepAsBlockingPaused_def
        intro!: runner_Run_once_forced)
  then have "runAll 1 ?rs = Some (map ?f ?rs)"
    by (rule runAll_map)
  with True assms show ?thesis
    by (simp add: Server_RunOnce_def Server_Run_def ServerPrivate_Run_def Let_def
        runner_SetPaused_def runner_SetNextStepAsBlockingPaused_def runner_Step_def comp_def)
next
  case False
  let ?rs = "map (runner_SetPaused False) (simRunners s)"
  let ?f = "\<lambda>r. (runner_Step r)\<lparr>rnRunning := False\<rparr>"
  have "\<forall>r \<in> set ?rs. runner_Run 1 r = Some (?f r)"
    by (auto simp: runner_SetPaused_def intro!: runner_Run_once_unpaused)
  then have "runAll 1 ?rs = Some (map ?f ?rs)"
    by (rule runAll_map)
  with False assms show ?thesis
    by (simp add: Server_RunOnce_def Server_Run_def ServerPrivate_Run_def Let_def
        runner_SetPaused_def runner_Step_def comp_def)
qed

section \<open>Running a server that is already running\<close>

text \<open>
  A call of \<^verbatim>\<open>Run\<close> on a server whose running flag is true returns false, and the
  running flag, the control thread and the runner collection keep their values; yet the
  call is not without effect. \<^verbatim>\<open>Run\<close> sets the pause state of every runner before it
  checks its preconditions: on the sample server, whose one runner is not paused, the
  rejected call \<^verbatim>\<open>Run(true, 1, true)\<close> leaves that runner paused.
\<close>

theorem Run_while_running_sets_paused:
  "running sampleServerRunning \<and>
   map rnPaused (simRunners sampleServerRunning) = [False] \<and>
   map_option (\<lambda>res. (fst res, map rnPaused (simRunners (snd res))))
     (Server_Run True 1 True sampleServerRunning) = Some (False, [True])"
  by (simp add: sampleServerRunning_def sampleServer_def Server_fresh_def sampleRunner_def
      Server_Run_def Let_def runner_SetPaused_def)

text \<open>
  Claim C1, amended. For every server whose running flag is already true, a further call
  \<^verbatim>\<open>Run(blocking, iterations, paused)\<close> returns false, and the only state it changes
  is the paused flag of every runner, which it sets to \<open>paused\<close>: the running flag, the
  control thread, the number of runners and every other field of every runner are as
  before the call.
\<close>

theorem Run_while_running_returns_false:
  "running s \<Longrightarrow>
   Server_Run blocking iterations paused s =
     Some (False, s\<lparr>simRunners := map (\<lambda>r. r\<lparr>rnPaused := paused\<rparr>) (simRunners s)\<rparr>)"
  by (simp add: Server_Run_def Let_def runner_SetPaused_def)

theorem Run_while_running_returns_false_witness:
  "running sampleServerRunning \<and>
   Server_Run False 0 True sampleServerRunning =
     Some (False,
       sampleServerRunning
         \<lparr>simRunners := [(sampleRunner (sampleWorld ''default''))\<lparr>rnPaused := True\<rparr>]\<rparr>)"
  using Run_while_running_returns_false [of sampleServerRunning False 0 True]
  by (simp add: sampleServerRunning_def sampleServer_def Server_fresh_def)

section \<open>Resolution errors during initialisation\<close>

text \<open>
  With parallel downloading enabled, a world file whose parse reports errors does not
  keep \<^verbatim>\<open>Init\<close> from creating runners: \<^verbatim>\<open>Init\<close> does not wait for the download
  task, it builds a provisional world from the world names of the file and calls
  \<^verbatim>\<open>CreateEntities\<close>. In the sample environment the load of \<open>shapes.sdf\<close> reports an
  error, and the constructed server has one runner.
\<close>

theorem Init_parallel_creates_runners_despite_errors:
  "fst (sdfLoad sampleEnvErrors (resolveSdfWorldFile sampleEnvErrors ''shapes.sdf'' [])) \<noteq> [] \<and>
   map_option (map_sum id (\<lambda>s. length (simRunners s)))
     (Server_Server sampleEnvErrors (sampleFileConfig ''shapes.sdf'' True) True None) =
   Some (Inr 1)"
  by (simp add: Server_Server_def Server_Init_def Server_fresh_def sampleFileConfig_def
      sampleConfig_def sampleEnvErrors_def sampleEnv_def Let_def DefaultWorld_World_def
      sampleLoad_default_text Init_create_def ServerPrivate_CreateEntities_def
      ServerPrivate_SetupTransport_def)

text \<open>
  Claim C2, amended. With parallel downloading disabled, for a server under construction
  (no runners yet): when the source is an SDF file whose path resolves to an empty
  result, or an SDF string or the default world whose parse reports a non-empty error
  list, \<^verbatim>\<open>DownloadModels\<close> returns false and \<^verbatim>\<open>Init\<close> returns with the state
  \<^verbatim>\<open>DownloadModels\<close> left, before \<^verbatim>\<open>CreateEntities\<close>: no runner is created, and every
  world-indexed operation on that server, for every index, returns nullopt or false and
  leaves the server unchanged.
\<close>

theorem Init_aborts_on_resolution_error:
  assumes "\<not> cfgDownloadInParallel (config s)" and "simRunners s = []"
    and "(cfgSource (config s) = kSdfFile \<and>
          resolveSdfWorldFile ev (cfgSdfFile (config s)) (cfgResourceCache (config s)) = []) \<or>
         (cfgSource (config s) = kSdfString \<and>
          fst (sdfLoadSdfString ev (cfgSdfString (config s))) \<noteq> []) \<or>
         (cfgSource (config s) = kNone \<and>
          fst (sdfLoadSdfString ev
                 (fst (DefaultWorld_World ''default'' (defaultWorldStatic s)))) \<noteq> [])"
  shows "\<exists>s'. Server_DownloadModels ev s = Some (False, s') \<and>
              Server_Init ev s = Some (Inr s') \<and>
              simRunners s' = [] \<and>
              transportSetUp s' = transportSetUp s \<and>
              (\<forall>i name recursive entity paused period sys.
                 Server_Running_at s' i = Inr None \<and>
                 Server_Paused s' i = Inr None \<and>
                 Server_IterationCount s' i = Inr None \<and>
                 Server_EntityCount s' i = Inr None \<and>
                 Server_SystemCount s' i = Inr None \<and>
                 Server_HasEntity name s' i = Inr False \<and>
                 Server_EntityByName name s' i = Inr None \<and>
                 Server_RequestRemoveEntity_name name recursive i s' = Inr (False, s') \<and>
                 Server_RequestRemoveEntity_entity entity recursive i s' = Inr (False, s') \<and>
                 Server_SetPaused paused i s' = Inr (False, s') \<and>
                 Server_SetUpdatePeriod period i s' = Inr s' \<and>
                 Server_AddSystem_plugin sys i s' =
                   Inr (if running s' then Some False else None, s') \<and>
                 Server_AddSystem_shared sys i s' =
                   Inr (if running s' then Some False else None, s'))"
proof -
  from DownloadModels_sync_fail [OF assms(1) assms(3)] obtain s'
    where d: "Server_DownloadModels ev s = Some (False, s')"
      and r: "simRunners s' = simRunners s"
      and t: "transportSetUp s' = transportSetUp s"
    by blast
  from r assms(2) have e: "simRunners s' = []" by simp
  have i: "Server_Init ev s = Some (Inr s')"
    using assms(1) d by (simp add: Server_Init_def)
  have le: "length (simRunners s') \<le> unat i" for i :: "32 word"
    using e by simp
  show ?thesis
    using d i e t by (simp add: accessors_out_of_range [OF le])
qed

theorem Init_aborts_on_resolution_error_witness:
  "\<not> cfgDownloadInParallel (sampleFileConfig ''missing.sdf'' False) \<and>
   cfgSource (sampleFileConfig ''missing.sdf'' False) = kSdfFile \<and>
   resolveSdfWorldFile sampleEnv ''missing.sdf'' [] = [] \<and>
   Server_Server sampleEnv (sampleFileConfig ''missing.sdf'' False) True None =
     Some (Inr (Server_fresh (sampleFileConfig ''missing.sdf'' False) True None)) \<and>
   Server_DownloadModels sampleEnv (Server_fresh (sampleFileConfig ''missing.sdf'' False) True None) =
     Some (False, Server_fresh (sampleFileConfig ''missing.sdf'' False) True None) \<and>
   simRunners (Server_fresh (sampleFileConfig ''missing.sdf'' False) True None) = [] \<and>
   cfgSource (sampleStringConfig ''<sdf>'') = kSdfString \<and>
   fst (sdfLoadSdfString sampleEnv ''<sdf>'') \<noteq> [] \<and>
   map_option (map_sum id simRunners)
     (Server_Server sampleEnv (sampleStringConfig ''<sdf>'') True None) = Some (Inr [])"
proof -
  note defs = Server_fresh_def sampleFileConfig_def sampleStringConfig_def sampleConfig_def
    sampleEnv_def
  have bad: "sampleLoadSdfString ''<sdf>'' = ([''Unable to read the SDF string''], sdf_root_empty)"
    by (simp add: sampleLoadSdfString_def sampleHeader_def)
  have missing:
    "Server_Server sampleEnv (sampleFileConfig ''missing.sdf'' False) True None =
       Some (Inr (Server_fresh (sampleFileConfig ''missing.sdf'' False) True None)) \<and>
     Server_DownloadModels sampleEnv
         (Server_fresh (sampleFileConfig ''missing.sdf'' False) True None) =
       Some (False, Server_fresh (sampleFileConfig ''missing.sdf'' False) True None)"
    using Init_aborts_on_resolution_error
            [of "Server_fresh (sampleFileConfig ''missing.sdf'' False) True None" sampleEnv]
    by (simp add: defs Server_Server_def Server_DownloadModels_def Let_def Server_Init_def)
  have "\<exists>s'. Server_Init sampleEnv (Server_fresh (sampleStringConfig ''<sdf>'') True None) =
               Some (Inr s') \<and> simRunners s' = []"
    using Init_aborts_on_resolution_error
            [of "Server_fresh (sampleStringConfig ''<sdf>'') True None" sampleEnv]
    by (simp add: defs bad) blast
  then have str:
    "map_option (map_sum id simRunners)
       (Server_Server sampleEnv (sampleStringConfig ''<sdf>'') True None) = Some (Inr [])"
    by (auto simp: Server_Server_def)
  show ?thesis
    using missing str by (simp add: defs bad)
qed

section \<open>World indices out of range\<close>

text \<open>
  Claim C3. For every world index greater than or equal to the number of runners, every
  world-indexed accessor of the server returns nullopt, false or nothing: \<^verbatim>\<open>Running\<close>,
  \<^verbatim>\<open>Paused\<close>, \<^verbatim>\<open>IterationCount\<close>, \<^verbatim>\<open>EntityCount\<close>, \<^verbatim>\<open>SystemCount\<close> and
  \<^verbatim>\<open>EntityByName\<close> return nullopt, \<^verbatim>\<open>HasEntity\<close>, \<^verbatim>\<open>RequestRemoveEntity\<close> (by name
  and by entity) and \<^verbatim>\<open>SetPaused\<close> return false, \<^verbatim>\<open>SetUpdatePeriod\<close> does nothing,
  and \<^verbatim>\<open>AddSystem\<close> (both overloads) returns false when the server is running and
  nullopt otherwise. None of them changes the server, and none reads the runner
  collection out of bounds: each result is a return value (\<open>Inr\<close>), not the fault of an
  out-of-range read.
\<close>

theorem out_of_range_world_index:
  assumes "length (simRunners s) \<le> unat worldIndex"
  shows "Server_Running_at s worldIndex = Inr None \<and>
         Server_Paused s worldIndex = Inr None \<and>
         Server_IterationCount s worldIndex = Inr None \<and>
         Server_EntityCount s worldIndex = Inr None \<and>
         Server_SystemCount s worldIndex = Inr None \<and>
         Server_HasEntity name s worldIndex = Inr False \<and>
         Server_EntityByName name s worldIndex = Inr None \<and>
         Server_RequestRemoveEntity_name name recursive worldIndex s = Inr (False, s) \<and>
         Server_RequestRemoveEntity_entity entity recursive worldIndex s = Inr (False, s) \<and>
         Server_SetPaused paused worldIndex s = Inr (False, s) \<and>
         Server_SetUpdatePeriod period worldIndex s = Inr s \<and>
         Server_AddSystem_plugin sys worldIndex s =
           Inr (if running s then Some False else None, s) \<and>
         Server_AddSystem_shared sys worldIndex s =
           Inr (if running s then Some False else None, s)"
  by (simp add: accessors_out_of_range [OF assms])

theorem out_of_range_world_index_witness:
  "length (simRunners sampleServer) \<le> unat (1 :: 32 word) \<and>
   Server_Running_at sampleServer 1 = Inr None \<and>
   Server_EntityCount sampleServer 1 = Inr None \<and>
   Server_HasEntity ''default'' sampleServer 1 = Inr False \<and>
   Server_RequestRemoveEntity_name ''default'' True 1 sampleServer = Inr (False, sampleServer) \<and>
   Server_SetPaused True 1 sampleServer = Inr (False, sampleServer) \<and>
   Server_SetUpdatePeriod 5 1 sampleServer = Inr sampleServer \<and>
   Server_AddSystem_plugin 7 1 sampleServer = Inr (None, sampleServer)"
  using out_of_range_world_index [of sampleServer 1 "''default''" True 1 True 5 7]
  by (simp add: sampleServer_def Server_fresh_def)

section \<open>Adding a system\<close>

text \<open>
  Claim C4. \<^verbatim>\<open>Server::AddSystem\<close> (both overloads) returns false whenever the server's
  running flag is true, and then changes nothing. Whenever the running flag is false and
  the world index is within the runner collection it returns true, and the system is
  appended to the plugin list of the runner at that index; the other runners and the rest
  of the server are unchanged.
\<close>

theorem AddSystem_result:
  "(running s \<longrightarrow>
      Server_AddSystem_plugin sys i s = Inr (Some False, s) \<and>
      Server_AddSystem_shared sys i s = Inr (Some False, s)) \<and>
   (\<not> running s \<and> unat i < length (simRunners s) \<longrightarrow>
      Server_AddSystem_plugin sys i s =
        Inr (Some True,
          s\<lparr>simRunners := (simRunners s)
              [unat i := (simRunners s ! unat i)
                 \<lparr>rnSystems := rnSystems (simRunners s ! unat i) @ [SystemPluginPtr sys]\<rparr>]\<rparr>) \<and>
      Server_AddSystem_shared sys i s =
        Inr (Some True,
          s\<lparr>simRunners := (simRunners s)
              [unat i := (simRunners s ! unat i)
                 \<lparr>rnSystems := rnSystems (simRunners s ! unat i) @ [SystemSharedPtr sys]\<rparr>]\<rparr>))"
  by (simp add: Server_AddSystem_plugin_def Server_AddSystem_shared_def callRunner_def
      runnerAt_def runner_AddSystem_def)

theorem AddSystem_result_witness:
  "running sampleServerRunning \<and>
   Server_AddSystem_plugin 7 0 sampleServerRunning = Inr (Some False, sampleServerRunning) \<and>
   \<not> running sampleServer \<and>
   unat (0 :: 32 word) < length (simRunners sampleServer) \<and>
   map_sum id (\<lambda>res. (fst res, map rnSystems (simRunners (snd res))))
     (Server_AddSystem_shared 7 0 sampleServer) = Inr (Some True, [[SystemSharedPtr 7]])"
  using AddSystem_result [of sampleServerRunning 7 0] AddSystem_result [of sampleServer 7 0]
  by (simp add: sampleServerRunning_def sampleServer_def Server_fresh_def sampleRunner_def)

section \<open>The control thread\<close>

text \<open>
  Two non-blocking calls in succession need not end with false from the second. While
  another thread is inside a blocking \<^verbatim>\<open>Run\<close> the running flag is set and the thread
  handle is still the null one: the first non-blocking call is rejected because the server
  is running and creates no thread. When the blocking run has ended (the running flag
  is clear again) the second non-blocking call finds the null handle, creates the control
  thread and returns true.
\<close>

theorem Run_nonblocking_second_call_succeeds:
  "running sampleServerBlockingRun \<and>
   runThread sampleServerBlockingRun = NotAThread \<and>
   Server_Run False 0 False sampleServerBlockingRun = Some (False, sampleServerBlockingRun) \<and>
   map_option (\<lambda>res. (fst res, runThread (snd res), runThreadsCreated (snd res)))
     (Server_Run False 0 False (sampleServerBlockingRun\<lparr>running := False\<rparr>)) =
     Some (True, RunThread 0, 1)"
  by (simp add: sampleServerBlockingRun_def sampleServer_def Server_fresh_def Server_Run_def
      Let_def runner_SetPaused_def sampleRunner_def)

text \<open>
  Claim C5, amended. On a server on which no blocking run is in progress on another
  thread (the running flag is only set while a control thread exists), calling
  \<^verbatim>\<open>Run\<close> with \<open>blocking = false\<close> twice in succession yields false from the second
  call, and at most one control thread has been created for the server afterwards. The
  count of created threads says at the start whether the thread handle is set. Between
  the two calls the control thread may have stepped the runners and may have finished, so
  the second call is made with any value of the running flag and any runners. The second
  call returns false, leaves the thread handle alone and creates no thread. For every
  state and every call of \<^verbatim>\<open>Run\<close>, a thread is created only when the stored thread
  handle is the null one (its id equals \<^verbatim>\<open>std::thread::id()\<close>) and the call is not
  blocking.
\<close>

theorem Run_nonblocking_twice:
  assumes "running s \<longrightarrow> runThread s \<noteq> NotAThread"
    and "runThreadsCreated s = (if runThread s = NotAThread then 0 else 1)"
  shows "(\<exists>ok1 s1. Server_Run False n1 p1 s = Some (ok1, s1) \<and>
            (\<forall>r rs. \<exists>s2.
               Server_Run False n2 p2 (s1\<lparr>running := r, simRunners := rs\<rparr>) = Some (False, s2) \<and>
               runThread s2 = runThread s1 \<and>
               runThreadsCreated s2 = runThreadsCreated s1 \<and>
               runThreadsCreated s2 \<le> 1)) \<and>
         (\<forall>blocking n p t ok t'.
            Server_Run blocking n p t = Some (ok, t') \<and>
            runThreadsCreated t' \<noteq> runThreadsCreated t \<longrightarrow>
              runThread t = NotAThread \<and> \<not> blocking \<and> ok \<and>
              runThread t' = RunThread n \<and> runThreadsCreated t' = runThreadsCreated t + 1)"
proof (intro conjI)
  show "\<exists>ok1 s1. Server_Run False n1 p1 s = Some (ok1, s1) \<and>
            (\<forall>r rs. \<exists>s2.
               Server_Run False n2 p2 (s1\<lparr>running := r, simRunners := rs\<rparr>) = Some (False, s2) \<and>
               runThread s2 = runThread s1 \<and>
               runThreadsCreated s2 = runThreadsCreated s1 \<and>
               runThreadsCreated s2 \<le> 1)"
    using assms by (auto simp: Server_Run_def Let_def)
next
  show "\<forall>blocking n p t ok t'.
            Server_Run blocking n p t = Some (ok, t') \<and>
            runThreadsCreated t' \<noteq> runThreadsCreated t \<longrightarrow>
              runThread t = NotAThread \<and> \<not> blocking \<and> ok \<and>
              runThread t' = RunThread n \<and> runThreadsCreated t' = runThreadsCreated t + 1"
    by (auto simp: Server_Run_def Let_def ServerPrivate_Run_def split: if_splits option.splits)
qed

theorem Run_nonblocking_twice_witness:
  "\<not> running sampleServer \<and>
   runThread sampleServer = NotAThread \<and>
   runThreadsCreated sampleServer = 0 \<and>
   Server_Run False 0 False sampleServer =
     Some (True, sampleServer\<lparr>runThread := RunThread 0, runThreadsCreated := 1, running := True\<rparr>) \<and>
   map_option (\<lambda>res. (fst res, runThread (snd res), runThreadsCreated (snd res)))
     (Server_Run False 0 False
        (sampleServer\<lparr>runThread := RunThread 0, runThreadsCreated := 1, running := False\<rparr>)) =
     Some (False, RunThread 0, 1)"
proof -
  let ?s1 = "sampleServer\<lparr>runThread := RunThread 0, runThreadsCreated := 1, running := True\<rparr>"
  have pre: "\<not> running sampleServer \<and> runThread sampleServer = NotAThread \<and>
             runThreadsCreated sampleServer = 0"
    by (simp add: sampleServer_def Server_fresh_def)
  have first: "Server_Run False 0 False sampleServer = Some (True, ?s1)"
    by (simp add: sampleServer_def Server_fresh_def Server_Run_def Let_def runner_SetPaused_def
        sampleRunner_def)
  from pre have "running sampleServer \<longrightarrow> runThread sampleServer \<noteq> NotAThread"
    and "runThreadsCreated sampleServer = (if runThread sampleServer = NotAThread then 0 else 1)"
    by simp_all
  from Run_nonblocking_twice [OF this, of 0 False 0 False] obtain ok1 s1
    where a: "Server_Run False 0 False sampleServer = Some (ok1, s1)"
      and b: "\<And>r rs. \<exists>s2.
                Server_Run False 0 False (s1\<lparr>running := r, simRunners := rs\<rparr>) = Some (False, s2) \<and>
                runThread s2 = runThread s1 \<and>
                runThreadsCreated s2 = runThreadsCreated s1 \<and>
                runThreadsCreated s2 \<le> 1"
    by blast
  from a first have s1: "s1 = ?s1" by simp
  from b [where r = False and rs = "simRunners sampleServer"] obtain s2
    where c: "Server_Run False 0 False (s1\<lparr>running := False, simRunners := simRunners sampleServer\<rparr>) =
                Some (False, s2)"
      and d: "runThread s2 = runThread s1" "runThreadsCreated s2 = runThreadsCreated s1"
    by blast
  have e: "s1\<lparr>running := False, simRunners := simRunners sampleServer\<rparr> =
           sampleServer\<lparr>runThread := RunThread 0, runThreadsCreated := 1, running := False\<rparr>"
    by (simp add: s1)
  from c d have "map_option (\<lambda>res. (fst res, runThread (snd res), runThreadsCreated (snd res)))
     (Server_Run False 0 False (s1\<lparr>running := False, simRunners := simRunners sampleServer\<rparr>)) =
     Some (False, RunThread 0, 1)"
    by (simp add: s1)
  then show ?thesis
    using pre first by (simp only: e simp_thms)
qed

section \<open>A single step\<close>

text \<open>
  Claim C6. For every pause flag \<open>p\<close>, \<^verbatim>\<open>RunOnce(p)\<close> is \<^verbatim>\<open>Run(true, 1, p)\<close> on the
  server in which, when \<open>p\<close> is true, the next step of every runner has first been marked
  as a forced blocking-paused step (\<open>RunOnce_spec\<close>). When the preconditions of
  \<^verbatim>\<open>Run\<close> hold (the signal handlers are initialised, the server is not running), the
  call returns true, every runner has executed the single step also when \<open>p\<close> is true,
  so that its iteration count has advanced by exactly 1, and every runner's paused flag
  is \<open>p\<close> afterwards.
\<close>

theorem RunOnce_refines_Run:
  "Server_RunOnce paused s = RunOnce_spec paused s \<and>
   (sigHandlerInitialized s \<and> \<not> running s \<longrightarrow>
     (\<exists>s'. Server_RunOnce paused s = Some (True, s') \<and>
        map rnIterations (simRunners s') = map (\<lambda>r. rnIterations r + 1) (simRunners s) \<and>
        map rnPaused (simRunners s') = map (\<lambda>r. paused) (simRunners s)))"
proof (intro conjI impI)
  show "Server_RunOnce paused s = RunOnce_spec paused s"
    by (rule RunOnce_eq_spec)
next
  assume "sigHandlerInitialized s \<and> \<not> running s"
  then have "Server_RunOnce paused s =
           Some (True,
             s\<lparr>simRunners :=
                 map (\<lambda>r. (runner_Step r)
                        \<lparr>rnPaused := paused,
                         rnBlockingPausedStepPending :=
                           (if paused then False else rnBlockingPausedStepPending r),
                         rnRunning := False\<rparr>)
                   (simRunners s)\<rparr>)"
    by (simp add: RunOnce_result)
  then show "\<exists>s'. Server_RunOnce paused s = Some (True, s') \<and>
        map rnIterations (simRunners s') = map (\<lambda>r. rnIterations r + 1) (simRunners s) \<and>
        map rnPaused (simRunners s') = map (\<lambda>r. paused) (simRunners s)"
    by (simp add: runner_Step_def comp_def)
qed

theorem RunOnce_refines_Run_witness:
  "sigHandlerInitialized sampleServer \<and> \<not> running sampleServer \<and>
   map rnIterations (simRunners sampleServer) = [0] \<and>
   map_option (\<lambda>res. (fst res, map rnIterations (simRunners (snd res)),
                       map rnPaused (simRunners (snd res))))
     (Server_RunOnce True sampleServer) = Some (True, [1], [True])"
proof -
  have pre: "sigHandlerInitialized sampleServer \<and> \<not> running sampleServer"
    by (simp add: sampleServer_def Server_fresh_def)
  with RunOnce_refines_Run [of True sampleServer] obtain s'
    where "Server_RunOnce True sampleServer = Some (True, s')"
      and "map rnIterations (simRunners s') =
             map (\<lambda>r. rnIterations r + 1) (simRunners sampleServer)"
      and "map rnPaused (simRunners s') = map (\<lambda>r. True) (simRunners sampleServer)"
    by blast
  with pre show ?thesis
    by (simp add: sampleServer_def Server_fresh_def sampleRunner_def)
qed

section \<open>The default world\<close>

text \<open>
  Claim C7 at an input where it fails. A server without a source is constructed in a
  process in which \<^verbatim>\<open>DefaultWorld::World\<close> has already been called for a world named
  \<open>shapes\<close> (by the initialisation of an earlier server with parallel downloading). The
  static string still holds that world: the description that \<^verbatim>\<open>DownloadModels\<close> loads
  has one world, named \<open>shapes\<close> and not \<open>default\<close>.
\<close>

theorem DownloadModels_kNone_reuses_static:
  "cfgSource (config (Server_fresh sampleConfig True (Some (DefaultWorld_text ''shapes'')))) = kNone \<and>
   map_option (\<lambda>res. (fst res, map wName (rootWorlds (sdfRoot (snd res)))))
     (Server_DownloadModels sampleEnv
        (Server_fresh sampleConfig True (Some (DefaultWorld_text ''shapes'')))) =
   Some (True, [''shapes''])"
  by (simp add: Server_DownloadModels_def Server_fresh_def sampleConfig_def sampleEnv_def
      DefaultWorld_World_def sampleLoad_default_text DownloadModels_finish_def sampleWorld_def)

text \<open>
  In a process in which \<^verbatim>\<open>DefaultWorld::World\<close> has not been called before, the same
  server loads the text of one world named \<open>default\<close> with nothing declared in it.
\<close>

lemma DownloadModels_kNone_first_call:
  "DefaultWorld_text ''default'' =
     ''<?xml version='1.0'?><sdf version='1.6'><world name='' @ [CHR 0x27] @ ''default'' @
     [CHR 0x27] @ ''></world></sdf>'' \<and>
   map_option (\<lambda>res. (fst res, rootWorlds (sdfRoot (snd res)), defaultWorldStatic (snd res)))
     (Server_DownloadModels sampleEnv (Server_fresh sampleConfig True None)) =
   Some (True, [\<lparr>wName = ''default'', wEntities = []\<rparr>], Some (DefaultWorld_text ''default''))"
  by (simp add: Server_DownloadModels_def Server_fresh_def sampleConfig_def sampleEnv_def
      DefaultWorld_World_def sampleLoad_default_text DownloadModels_finish_def sampleWorld_def)
     (simp add: DefaultWorld_text_def)

section \<open>Failure of the download task\<close>

text \<open>
  Claim C8 at an input where it fails. With parallel downloading enabled, the parser
  reports errors for a file in which it still found a world. The download task hands the
  world to every runner and marks every runner as having fetched all includes before it
  looks at the error list; only then does it return false. On the sample server the one
  runner is not marked before the task runs and is marked after it, although the task
  reports failure.
\<close>

theorem DownloadModels_marks_runners_despite_errors:
  "cfgDownloadInParallel (config (sampleParallelServer ''shapes.sdf'')) \<and>
   fst (sdfLoad sampleEnvErrors ''/worlds/shapes.sdf'') \<noteq> [] \<and>
   map rnFetchedAllIncludes (simRunners (sampleParallelServer ''shapes.sdf'')) = [False] \<and>
   map_option (\<lambda>res. (fst res, map rnFetchedAllIncludes (simRunners (snd res))))
     (Server_DownloadModels sampleEnvErrors (sampleParallelServer ''shapes.sdf'')) =
   Some (False, [True])"
  by (simp add: sampleParallelServer_def Server_fresh_def sampleFileConfig_def sampleConfig_def
      sampleEnvErrors_def sampleEnv_def Server_DownloadModels_def Let_def waitForRunners_pass
      DownloadModels_finish_def runner_SetFetchedAllIncludes_def sampleRunner_def)

text \<open>
  The other failure paths of the download task, with parallel downloading enabled and a
  file source. When the path does not resolve the task returns false and the server is
  unchanged. When the loaded file has no world (the task runs once runners exist) it
  returns false and only the stored description changes: no runner is marked as having
  fetched all includes. When the parser reports errors (the task runs once runners exist)
  it returns false, and the runners are as many as before and each is running or not as
  before.
\<close>

lemma DownloadModels_parallel_failure:
  assumes "cfgSource (config s) = kSdfFile" and "cfgDownloadInParallel (config s)"
    and "resolveSdfWorldFile ev (cfgSdfFile (config s)) (cfgResourceCache (config s)) = path"
  shows "(path = [] \<longrightarrow> Server_DownloadModels ev s = Some (False, s)) \<and>
         (path \<noteq> [] \<and> simRunners s \<noteq> [] \<and> rootWorlds (snd (sdfLoad ev path)) = [] \<longrightarrow>
            Server_DownloadModels ev s = Some (False, s\<lparr>sdfRoot := snd (sdfLoad ev path)\<rparr>)) \<and>
         (path \<noteq> [] \<and> simRunners s \<noteq> [] \<and> fst (sdfLoad ev path) \<noteq> [] \<longrightarrow>
            (\<exists>s'. Server_DownloadModels ev s = Some (False, s') \<and>
                  length (simRunners s') = length (simRunners s) \<and>
                  map rnRunning (simRunners s') = map rnRunning (simRunners s)))"
  using assms
  by (auto simp: Server_DownloadModels_def Let_def waitForRunners_pass DownloadModels_finish_def
      runner_SetFetchedAllIncludes_def comp_def foldl_AddWorld_running split: prod.splits)

lemma DownloadModels_parallel_failure_samples:
  "cfgSource (config (sampleParallelServer ''missing.sdf'')) = kSdfFile \<and>
   cfgDownloadInParallel (config (sampleParallelServer ''missing.sdf'')) \<and>
   resolveSdfWorldFile sampleEnv ''missing.sdf'' [] = [] \<and>
   Server_DownloadModels sampleEnv (sampleParallelServer ''missing.sdf'') =
     Some (False, sampleParallelServer ''missing.sdf'') \<and>
   resolveSdfWorldFile sampleEnvNoWorld ''shapes.sdf'' [] = ''/worlds/shapes.sdf'' \<and>
   simRunners (sampleParallelServer ''shapes.sdf'') \<noteq> [] \<and>
   rootWorlds (snd (sdfLoad sampleEnvNoWorld ''/worlds/shapes.sdf'')) = [] \<and>
   Server_DownloadModels sampleEnvNoWorld (sampleParallelServer ''shapes.sdf'') =
     Some (False, (sampleParallelServer ''shapes.sdf'')\<lparr>sdfRoot := sdf_root_empty\<rparr>) \<and>
   fst (sdfLoad sampleEnvErrors ''/worlds/shapes.sdf'') \<noteq> [] \<and>
   map_option fst (Server_DownloadModels sampleEnvErrors (sampleParallelServer ''shapes.sdf'')) =
     Some False"
proof -
  note defs = sampleParallelServer_def Server_fresh_def sampleFileConfig_def sampleConfig_def
    sampleEnvErrors_def sampleEnvNoWorld_def sampleEnv_def
  have unresolved:
    "Server_DownloadModels sampleEnv (sampleParallelServer ''missing.sdf'') =
       Some (False, sampleParallelServer ''missing.sdf'')"
    using DownloadModels_parallel_failure
            [of "sampleParallelServer ''missing.sdf''" sampleEnv "[]"]
    by (simp add: defs)
  have no_world:
    "Server_DownloadModels sampleEnvNoWorld (sampleParallelServer ''shapes.sdf'') =
       Some (False, (sampleParallelServer ''shapes.sdf'')\<lparr>sdfRoot := sdf_root_empty\<rparr>)"
    using DownloadModels_parallel_failure
            [of "sampleParallelServer ''shapes.sdf''" sampleEnvNoWorld "''/worlds/shapes.sdf''"]
    by (simp add: defs sdf_root_empty_def)
  have "\<exists>s'. Server_DownloadModels sampleEnvErrors (sampleParallelServer ''shapes.sdf'') =
            Some (False, s') \<and>
          length (simRunners s') = length (simRunners (sampleParallelServer ''shapes.sdf'')) \<and>
          map rnRunning (simRunners s') =
            map rnRunning (simRunners (sampleParallelServer ''shapes.sdf''))"
    using DownloadModels_parallel_failure
            [of "sampleParallelServer ''shapes.sdf''" sampleEnvErrors "''/worlds/shapes.sdf''"]
    by (simp add: defs)
  then have errors:
    "map_option fst (Server_DownloadModels sampleEnvErrors (sampleParallelServer ''shapes.sdf'')) =
       Some False"
    by auto
  show ?thesis
    using unresolved no_world errors by (simp add: defs sdf_root_empty_def)
qed

section \<open>The static string of the default world\<close>

text \<open>
  Claim C9. \<^verbatim>\<open>DefaultWorld::World\<close> builds its SDF string on the first call only. The
  first call, with name \<open>n1\<close>, returns and stores the SDF text of one empty world whose
  name attribute is \<open>n1\<close>. Every later call, whatever its name argument \<open>n2\<close>, returns
  the stored text: a call after the first returns the text of the world named \<open>n1\<close>,
  which for \<open>n2\<close> different from \<open>n1\<close> is not the text a first call with \<open>n2\<close> would
  have built. Hence the initialisation of a server with parallel downloading, in a process
  where the first call was made with \<open>n1\<close>, loads its provisional world from the text of
  the world named \<open>n1\<close> and not from the first world name \<open>n2\<close> of its own file.
\<close>

theorem DefaultWorld_first_call_wins:
  "fst (DefaultWorld_World n1 None) =
     ''<?xml version='1.0'?><sdf version='1.6'><world name='' @ [CHR 0x27] @ n1 @ [CHR 0x27] @
       ''></world></sdf>'' \<and>
   snd (DefaultWorld_World n1 None) =
     Some (''<?xml version='1.0'?><sdf version='1.6'><world name='' @ [CHR 0x27] @ n1 @ [CHR 0x27] @
       ''></world></sdf>'') \<and>
   DefaultWorld_World n2 (snd (DefaultWorld_World n1 None)) =
     (''<?xml version='1.0'?><sdf version='1.6'><world name='' @ [CHR 0x27] @ n1 @ [CHR 0x27] @
       ''></world></sdf>'',
      Some (''<?xml version='1.0'?><sdf version='1.6'><world name='' @ [CHR 0x27] @ n1 @ [CHR 0x27] @
       ''></world></sdf>'')) \<and>
   DefaultWorld_World n2 (Some w) = (w, Some w) \<and>
   (n1 \<noteq> n2 \<longrightarrow>
      fst (DefaultWorld_World n2 (snd (DefaultWorld_World n1 None))) \<noteq>
      fst (DefaultWorld_World n2 None)) \<and>
   (cfgDownloadInParallel (config s) \<and>
    worldNamesFromFile ev (findFile ev (cfgSdfFile (config s))) = n2 # ns \<and>
    defaultWorldStatic s = snd (DefaultWorld_World n1 None) \<longrightarrow>
      Server_Init ev s =
        Some (Init_create ev
                (fst (sdfLoadSdfString ev
                   (''<?xml version='1.0'?><sdf version='1.6'><world name='' @ [CHR 0x27] @ n1 @ [CHR 0x27] @
       ''></world></sdf>'')))
                (s\<lparr>downloadModelsThread := True,
                   defaultWorldStatic :=
                     Some (''<?xml version='1.0'?><sdf version='1.6'><world name='' @ [CHR 0x27] @ n1 @ [CHR 0x27] @
       ''></world></sdf>''),
                   sdfRoot :=
                     snd (sdfLoadSdfString ev
                       (''<?xml version='1.0'?><sdf version='1.6'><world name='' @ [CHR 0x27] @ n1 @ [CHR 0x27] @
       ''></world></sdf>''))\<rparr>)))"
proof -
  have text_eq: "DefaultWorld_text n =
       ''<?xml version='1.0'?><sdf version='1.6'><world name='' @ [CHR 0x27] @ n @ [CHR 0x27] @
       ''></world></sdf>''" for n
    by (simp add: DefaultWorld_text_def)
  have differ: "DefaultWorld_text n1 \<noteq> DefaultWorld_text n2" if "n1 \<noteq> n2"
    using that by (simp add: DefaultWorld_text_def)
  have calls:
    "DefaultWorld_World n1 None = (DefaultWorld_text n1, Some (DefaultWorld_text n1))"
    "DefaultWorld_World n2 None = (DefaultWorld_text n2, Some (DefaultWorld_text n2))"
    "DefaultWorld_World n2 (Some v) = (v, Some v)" for v
    by (simp_all add: DefaultWorld_World_def)
  have init: "Server_Init ev s =
        Some (Init_create ev (fst (sdfLoadSdfString ev (DefaultWorld_text n1)))
                (s\<lparr>downloadModelsThread := True,
                   defaultWorldStatic := Some (DefaultWorld_text n1),
                   sdfRoot := snd (sdfLoadSdfString ev (DefaultWorld_text n1))\<rparr>))"
    if "cfgDownloadInParallel (config s)"
      and "worldNamesFromFile ev (findFile ev (cfgSdfFile (config s))) = n2 # ns"
      and "defaultWorldStatic s = snd (DefaultWorld_World n1 None)"
    using that by (simp add: Server_Init_def Let_def calls split: prod.splits)
  show ?thesis
    unfolding text_eq [symmetric]
  proof (intro conjI impI)
    assume "cfgDownloadInParallel (config s) \<and>
      worldNamesFromFile ev (findFile ev (cfgSdfFile (config s))) = n2 # ns \<and>
      defaultWorldStatic s = snd (DefaultWorld_World n1 None)"
    then show "Server_Init ev s =
        Some (Init_create ev (fst (sdfLoadSdfString ev (DefaultWorld_text n1)))
                (s\<lparr>downloadModelsThread := True,
                   defaultWorldStatic := Some (DefaultWorld_text n1),
                   sdfRoot := snd (sdfLoadSdfString ev (DefaultWorld_text n1))\<rparr>))"
      by (intro init) simp_all
  next
    assume "n1 \<noteq> n2"
    then show "fst (DefaultWorld_World n2 (snd (DefaultWorld_World n1 None))) \<noteq>
      fst (DefaultWorld_World n2 None)"
      by (simp add: calls differ)
  qed (simp_all add: calls)
qed

theorem DefaultWorld_first_call_wins_witness:
  "cfgDownloadInParallel (sampleFileConfig ''lake.sdf'' True) \<and>
   worldNamesFromFile sampleEnvLake (findFile sampleEnvLake ''lake.sdf'') = [''lake''] \<and>
   fst (DefaultWorld_World ''lake'' (snd (DefaultWorld_World ''shapes'' None))) =
     ''<?xml version='1.0'?><sdf version='1.6'><world name='shapes'></world></sdf>'' \<and>
   fst (DefaultWorld_World ''lake'' None) =
     ''<?xml version='1.0'?><sdf version='1.6'><world name='lake'></world></sdf>'' \<and>
   map_option (map_sum id (\<lambda>s. map (\<lambda>r. map wName (rnWorlds r)) (simRunners s)))
     (Server_Server sampleEnvLake (sampleFileConfig ''lake.sdf'' True) True
        (snd (DefaultWorld_World ''shapes'' None))) = Some (Inr [[''shapes'']])"
proof -
  let ?s = "Server_fresh (sampleFileConfig ''lake.sdf'' True) True
              (snd (DefaultWorld_World ''shapes'' None))"
  let ?txt = "''<?xml version='1.0'?><sdf version='1.6'><world name='' @ [CHR 0x27] @ ''shapes'' @ [CHR 0x27] @
       ''></world></sdf>''"
  note inst = DefaultWorld_first_call_wins [of "''shapes''" "''lake''" "[]" ?s sampleEnvLake "[]"]
  have pre: "cfgDownloadInParallel (config ?s) \<and>
             worldNamesFromFile sampleEnvLake (findFile sampleEnvLake (cfgSdfFile (config ?s))) =
               ''lake'' # [] \<and>
             defaultWorldStatic ?s = snd (DefaultWorld_World ''shapes'' None)"
    by (simp add: Server_fresh_def sampleFileConfig_def sampleConfig_def sampleEnvLake_def
        sampleEnv_def)
  from inst
  have "DefaultWorld_World ''lake'' (snd (DefaultWorld_World ''shapes'' None)) =
          (?txt, Some ?txt)"
    by blast
  then have later:
    "fst (DefaultWorld_World ''lake'' (snd (DefaultWorld_World ''shapes'' None))) = ?txt"
    by (simp only: fst_conv)
  have own: "fst (DefaultWorld_World ''lake'' None) =
     ''<?xml version='1.0'?><sdf version='1.6'><world name='lake'></world></sdf>''"
    by (simp add: DefaultWorld_World_def DefaultWorld_text_def)
  have "?txt = DefaultWorld_text ''shapes''"
    by (simp add: DefaultWorld_text_def)
  then have parsed: "sdfLoadSdfString sampleEnvLake ?txt =
                  ([], \<lparr>rootWorlds = [sampleWorld ''shapes'']\<rparr>)"
    by (simp add: sampleEnvLake_def sampleEnv_def sampleLoad_default_text)
  from inst pre
  have "Server_Init sampleEnvLake ?s =
          Some (Init_create sampleEnvLake (fst (sdfLoadSdfString sampleEnvLake ?txt))
                  (?s\<lparr>downloadModelsThread := True,
                      defaultWorldStatic := Some ?txt,
                      sdfRoot := snd (sdfLoadSdfString sampleEnvLake ?txt)\<rparr>))"
    by blast
  then have "Server_Init sampleEnvLake ?s =
          Some (Init_create sampleEnvLake []
                  (?s\<lparr>downloadModelsThread := True,
                      defaultWorldStatic := Some ?txt,
                      sdfRoot := \<lparr>rootWorlds = [sampleWorld ''shapes'']\<rparr>\<rparr>))"
    by (simp only: parsed fst_conv snd_conv)
  then have "map_option (map_sum id (\<lambda>s. map (\<lambda>r. map wName (rnWorlds r)) (simRunners s)))
               (Server_Init sampleEnvLake ?s) = Some (Inr [[''shapes'']])"
    by (simp add: Init_create_def Let_def ServerPrivate_CreateEntities_def
        ServerPrivate_SetupTransport_def Server_fresh_def sampleFileConfig_def sampleConfig_def
        sampleEnvLake_def sampleEnv_def sampleRunner_def sampleWorld_def)
  then have srv: "map_option (map_sum id (\<lambda>s. map (\<lambda>r. map wName (rnWorlds r)) (simRunners s)))
     (Server_Server sampleEnvLake (sampleFileConfig ''lake.sdf'' True) True
        (snd (DefaultWorld_World ''shapes'' None))) = Some (Inr [[''shapes'']])"
    by (simp only: Server_Server_def)
  have "?txt = ''<?xml version='1.0'?><sdf version='1.6'><world name='shapes'></world></sdf>''"
    by simp
  with later own srv show ?thesis
    by (simp add: sampleFileConfig_def sampleConfig_def sampleEnvLake_def sampleEnv_def)
qed

section \<open>Rejected calls of the stopwatch\<close>

text \<open>
  Claim C10. \<^verbatim>\<open>Start\<close> with \<open>reset = false\<close> on a running stopwatch returns false and
  leaves the stopwatch as it was: all five fields (running, startTime, stopTime,
  stopDuration, runDuration) keep their values, so the stopwatch after the call is equal
  to the one before, also under the class's own \<^verbatim>\<open>operator==\<close>. \<^verbatim>\<open>Stop\<close> on a
  stopwatch that is not running returns false and leaves it as it was, in the same sense.
  Both hold whatever the clock reads.
\<close>

theorem Stopwatch_rejected_calls_unchanged:
  "(swRunning w \<longrightarrow>
      Stopwatch_Start False now1 now2 w = (False, w) \<and>
      Stopwatch_eq (snd (Stopwatch_Start False now1 now2 w)) w) \<and>
   (\<not> swRunning w \<longrightarrow>
      Stopwatch_Stop now w = (False, w) \<and>
      Stopwatch_eq (snd (Stopwatch_Stop now w)) w)"
  by (simp add: Stopwatch_Start_def Stopwatch_Stop_def Stopwatch_eq_def)

theorem Stopwatch_rejected_calls_unchanged_witness:
  "swRunning swRunningSample \<and>
   Stopwatch_Start False 200 201 swRunningSample = (False, swRunningSample) \<and>
   \<not> swRunning swStoppedSample \<and>
   Stopwatch_Stop 300 swStoppedSample = (False, swStoppedSample)"
  using Stopwatch_rejected_calls_unchanged [of swRunningSample 200 201 300]
        Stopwatch_rejected_calls_unchanged [of swStoppedSample 200 201 300]
  by (simp add: swRunningSample_def swStoppedSample_def)

end
